theory Spec2Isabelle
  imports Main
begin

section \<open>The chat list screen of \<^verbatim>\<open>src/app/(tabs)/index.tsx\<close>\<close>

text \<open>
  The screen keeps two pieces of React state (\<^verbatim>\<open>loading\<close>, \<^verbatim>\<open>chatrooms\<close>), fetches the
  user's chatroom memberships and a batch of scenery images, and turns the memberships
  into display rows. The embedding follows the TypeScript function by function:
  JavaScript values that the code distinguishes at run time (\<^verbatim>\<open>undefined\<close>, \<^verbatim>\<open>null\<close>,
  \<^verbatim>\<open>NaN\<close>) are constructors, a thrown exception is the left summand of a result, and the
  \<^verbatim>\<open>try / catch / finally\<close> statement is a combinator on state-passing computations.
\<close>

subsection \<open>JavaScript values\<close>

text \<open>A thrown value; the string is its message.\<close>

datatype js_error = Thrown string

text \<open>
  What \<^verbatim>\<open>unsplashImages[k] || null\<close> can evaluate to: reading an array of strings gives
  a string or \<^verbatim>\<open>undefined\<close>, and the right operand is \<^verbatim>\<open>null\<close>.
\<close>

datatype js_value = Undefined | Null | Str string

text \<open>The result of \<^verbatim>\<open>%\<close> on two array indices: a non-negative integer or \<^verbatim>\<open>NaN\<close>.\<close>

datatype js_number = Num nat | NaN

text \<open>\<^verbatim>\<open>a % b\<close> on non-negative integers: \<^verbatim>\<open>NaN\<close> when \<^verbatim>\<open>b\<close> is 0; it never throws.\<close>

definition js_rem :: "nat \<Rightarrow> nat \<Rightarrow> js_number" where
  "js_rem a b = (if b = 0 then NaN else Num (a mod b))"

text \<open>\<^verbatim>\<open>xs[k]\<close>: \<^verbatim>\<open>undefined\<close> for \<^verbatim>\<open>NaN\<close> and for an index past the end.\<close>

definition js_index :: "string list \<Rightarrow> js_number \<Rightarrow> js_value" where
  "js_index xs k =
     (case k of
        NaN \<Rightarrow> Undefined
      | Num i \<Rightarrow> (if i < length xs then Str (xs ! i) else Undefined))"

text \<open>Truthiness: \<^verbatim>\<open>undefined\<close>, \<^verbatim>\<open>null\<close> and the empty string are falsy.\<close>

fun truthy :: "js_value \<Rightarrow> bool" where
  "truthy Undefined = False"
| "truthy Null = False"
| "truthy (Str s) = (s \<noteq> [])"

text \<open>\<^verbatim>\<open>a || b\<close>.\<close>

definition js_or :: "js_value \<Rightarrow> js_value \<Rightarrow> js_value" where
  "js_or a b = (if truthy a then a else b)"

text \<open>
  A JavaScript \<^verbatim>\<open>Date\<close> holds a time value: a whole number of milliseconds since the
  epoch, or \<^verbatim>\<open>NaN\<close> (an \<^emph>\<open>Invalid Date\<close>).
\<close>

datatype js_date = InvalidDate | TimeValue int

subsection \<open>The data model\<close>

text \<open>A row of the membership query: \<^verbatim>\<open>{ chatroom: { id, name } }\<close>.\<close>

record chatroom_row =
  id_row :: string
  name_row :: string

record membership =
  chatroom :: chatroom_row

text \<open>The interface \<^verbatim>\<open>ChatroomWithMessages\<close> (lines 11 to 22).\<close>

record sender_rec =
  username :: string
  avatar_url :: js_value

record last_message =
  content :: string
  created_at :: string
  sender :: sender_rec

record ChatroomWithMessages =
  id_cwm :: string
  name_cwm :: string
  lastMessage :: "last_message option"

text \<open>
  The component's state: the two \<^verbatim>\<open>useState\<close> cells, and the lines written with
  \<^verbatim>\<open>console.error\<close> (its two arguments).
\<close>

record screen_state =
  loading :: bool
  chatrooms :: "ChatroomWithMessages list"
  console :: "(string \<times> js_error) list"

text \<open>\<^verbatim>\<open>useState(true)\<close> and \<^verbatim>\<open>useState([])\<close>.\<close>

definition initial_state :: screen_state where
  "initial_state = \<lparr>loading = True, chatrooms = [], console = []\<rparr>"

subsection \<open>Computations that change the state and may throw\<close>

type_synonym 'a io = "screen_state \<Rightarrow> (js_error + 'a) \<times> screen_state"

definition bind_io :: "'a io \<Rightarrow> ('a \<Rightarrow> 'b io) \<Rightarrow> 'b io" where
  "bind_io m f s =
     (case m s of
        (Inl e, s') \<Rightarrow> (Inl e, s')
      | (Inr v, s') \<Rightarrow> f v s')"

text \<open>
  \<^verbatim>\<open>await p\<close> for a promise of a collaborator: the value it resolves to, or the rejection
  thrown at the \<^verbatim>\<open>await\<close>. The screen's state is not touched.
\<close>

definition await :: "js_error + 'a \<Rightarrow> 'a io" where
  "await r s = (r, s)"

definition setChatrooms :: "ChatroomWithMessages list \<Rightarrow> unit io" where
  "setChatrooms v s = (Inr (), s\<lparr>chatrooms := v\<rparr>)"

definition setLoading :: "bool \<Rightarrow> unit io" where
  "setLoading v s = (Inr (), s\<lparr>loading := v\<rparr>)"

definition console_error :: "string \<Rightarrow> js_error \<Rightarrow> unit io" where
  "console_error msg err s = (Inr (), s\<lparr>console := console s @ [(msg, err)]\<rparr>)"

text \<open>
  \<^verbatim>\<open>try { body } catch (err) { handler } finally { finalizer }\<close>: the handler runs when the
  body throws, in the state the body left; the finalizer runs in every case; what the
  statement throws is what the finalizer throws or, failing that, what the handler throws.
\<close>

definition try_catch_finally :: "unit io \<Rightarrow> (js_error \<Rightarrow> unit io) \<Rightarrow> unit io \<Rightarrow> unit io" where
  "try_catch_finally body handler finalizer s =
     (case body s of (r1, s1) \<Rightarrow>
        (case (case r1 of Inl e \<Rightarrow> handler e s1 | Inr v \<Rightarrow> (Inr v, s1)) of (r2, s2) \<Rightarrow>
           (case finalizer s2 of (r3, s3) \<Rightarrow>
              (case r3 of Inl e \<Rightarrow> (Inl e, s3) | Inr _ \<Rightarrow> (r2, s3)))))"

text \<open>\<^verbatim>\<open>try { return e } catch { return d }\<close> for an expression without effects.\<close>

definition try_catch :: "js_error + 'a \<Rightarrow> 'a \<Rightarrow> js_error + 'a" where
  "try_catch e d = (case e of Inl _ \<Rightarrow> Inr d | Inr v \<Rightarrow> Inr v)"

subsection \<open>formatTimestamp (lines 24 to 31)\<close>

text \<open>
  \<^verbatim>\<open>new Date(string)\<close> and \<^verbatim>\<open>format\<close> of the package date-fns are not code of this
  repository: they are the parameters \<open>new_Date\<close> and \<open>format\<close>. Constructing a date from
  a string never throws (an unparseable string gives an Invalid Date); \<open>format\<close> may.
\<close>

definition formatTimestamp ::
  "(string \<Rightarrow> js_date) \<Rightarrow> (js_date \<Rightarrow> string \<Rightarrow> js_error + string) \<Rightarrow>
     string option \<Rightarrow> js_error + string" where
  "formatTimestamp new_Date format timestamp =
     (case timestamp of
        None \<Rightarrow> Inr ''''
      | Some ts \<Rightarrow>
          (if ts = '''' then Inr ''''
           else try_catch (format (new_Date ts) ''MMM d, h:mm a'') ''''))"

subsection \<open>fetchChatrooms (lines 40 to 73)\<close>

text \<open>The object built by the callback of \<^verbatim>\<open>data?.map\<close> (lines 54 to 65).\<close>

definition transform_item :: "string list \<Rightarrow> nat \<times> membership \<Rightarrow> ChatroomWithMessages" where
  "transform_item unsplashImages p =
     (case p of (index, item) \<Rightarrow>
        \<lparr>id_cwm = id_row (chatroom item),
         name_cwm = name_row (chatroom item),
         lastMessage = Some
           \<lparr>content = ''No messages yet'',
            created_at = '''',
            sender =
              \<lparr>username = ''Unknown'',
               avatar_url =
                 js_or (js_index unsplashImages (js_rem index (length unsplashImages))) Null\<rparr>\<rparr>\<rparr>)"

text \<open>
  \<^verbatim>\<open>data?.map(...) || []\<close>: for \<^verbatim>\<open>null\<close> the optional call gives \<^verbatim>\<open>undefined\<close> and the
  result is \<^verbatim>\<open>[]\<close>; an array, empty or not, is truthy and is the result.
\<close>

definition transformedData :: "membership list option \<Rightarrow> string list \<Rightarrow> ChatroomWithMessages list" where
  "transformedData data unsplashImages =
     (case data of
        None \<Rightarrow> []
      | Some items \<Rightarrow> map (transform_item unsplashImages) (enumerate 0 items))"

text \<open>
  The two collaborators are given by what their promises settle to: \<open>query\<close> for the
  membership query (rows, or \<^verbatim>\<open>null\<close>), \<open>images\<close> for \<^verbatim>\<open>fetchSceneryImages('scenery')\<close>,
  which is called only when the first \<^verbatim>\<open>await\<close> did not throw.
\<close>

definition fetchChatrooms ::
  "js_error + membership list option \<Rightarrow> js_error + string list \<Rightarrow> unit io" where
  "fetchChatrooms query images =
     try_catch_finally
       (bind_io (await query) (\<lambda>data.
        bind_io (await images) (\<lambda>unsplashImages.
        setChatrooms (transformedData data unsplashImages))))
       (\<lambda>err. console_error ''Error fetching chatrooms:'' err)
       (setLoading False)"

subsection \<open>renderItem (lines 79 to 104)\<close>

text \<open>The text of the timestamp element: \<^verbatim>\<open>formatTimestamp(item.lastMessage?.created_at ?? null)\<close>.\<close>

definition renderItem_timestamp ::
  "(string \<Rightarrow> js_date) \<Rightarrow> (js_date \<Rightarrow> string \<Rightarrow> js_error + string) \<Rightarrow>
     ChatroomWithMessages \<Rightarrow> js_error + string" where
  "renderItem_timestamp new_Date format item =
     formatTimestamp new_Date format
       (case lastMessage item of None \<Rightarrow> None | Some m \<Rightarrow> Some (created_at m))"

subsection \<open>Example rows\<close>

text \<open>A membership row \<^verbatim>\<open>{ chatroom: { id: i, name: n } }\<close>, for the concrete runs below.\<close>

abbreviation row :: "string \<Rightarrow> string \<Rightarrow> membership" where
  "row i n \<equiv> \<lparr>chatroom = \<lparr>id_row = i, name_row = n\<rparr>\<rparr>"

text \<open>The avatar of each row of a list, \<open>None\<close> where a row has no \<^verbatim>\<open>lastMessage\<close>.\<close>

abbreviation avatars :: "ChatroomWithMessages list \<Rightarrow> js_value option list" where
  "avatars cs \<equiv> map (\<lambda>c. map_option (\<lambda>m. avatar_url (sender m)) (lastMessage c)) cs"

section \<open>Properties\<close>

subsection \<open>What one run of fetchChatrooms does\<close>

lemma fetchChatrooms_query_throws:
  "fetchChatrooms (Inl e) images s =
     (Inr (), s\<lparr>console := console s @ [(''Error fetching chatrooms:'', e)], loading := False\<rparr>)"
  by (simp add: fetchChatrooms_def try_catch_finally_def bind_io_def await_def
      console_error_def setLoading_def)

lemma fetchChatrooms_images_throw:
  "fetchChatrooms (Inr data) (Inl e) s =
     (Inr (), s\<lparr>console := console s @ [(''Error fetching chatrooms:'', e)], loading := False\<rparr>)"
  by (simp add: fetchChatrooms_def try_catch_finally_def bind_io_def await_def
      console_error_def setLoading_def)

lemma fetchChatrooms_success:
  "fetchChatrooms (Inr data) (Inr imgs) s =
     (Inr (), s\<lparr>chatrooms := transformedData data imgs, loading := False\<rparr>)"
  by (simp add: fetchChatrooms_def try_catch_finally_def bind_io_def await_def
      setChatrooms_def setLoading_def)

text \<open>
  C7. Whatever the two collaborators do (the membership query throws, it returns rows or
  \<^verbatim>\<open>null\<close>, the image fetch throws or returns), the call of fetchChatrooms completes
  without throwing, and the loading flag is false afterwards.
\<close>

theorem fetchChatrooms_clears_loading:
  "fst (fetchChatrooms query images s) = Inr () \<and>
   loading (snd (fetchChatrooms query images s)) = False"
proof (cases query)
  case (Inl e)
  then show ?thesis by (simp add: fetchChatrooms_query_throws)
next
  case (Inr data)
  then show ?thesis
    by (cases images) (simp_all add: fetchChatrooms_images_throw fetchChatrooms_success)
qed

subsection \<open>The transformation\<close>

lemma js_avatar_empty_batch:
  "js_or (js_index [] (js_rem i 0)) Null = Null"
  by (simp add: js_rem_def js_index_def js_or_def)

lemma js_avatar_nonempty_batch:
  assumes "imgs \<noteq> []"
  shows "js_or (js_index imgs (js_rem i (length imgs))) Null =
         (if imgs ! (i mod length imgs) = '''' then Null else Str (imgs ! (i mod length imgs)))"
  using assms by (simp add: js_rem_def js_index_def js_or_def)

lemma lastMessage_transform_item:
  "lastMessage (transform_item imgs (i, item)) =
     Some \<lparr>content = ''No messages yet'', created_at = '''',
           sender = \<lparr>username = ''Unknown'',
                     avatar_url = js_or (js_index imgs (js_rem i (length imgs))) Null\<rparr>\<rparr>"
  by (simp add: transform_item_def)

lemma nth_transformedData:
  assumes "i < length ms"
  shows "transformedData (Some ms) imgs ! i = transform_item imgs (i, ms ! i)"
  using assms by (simp add: transformedData_def nth_enumerate_eq)

lemma length_transformedData:
  "length (transformedData (Some ms) imgs) = length ms"
  by (simp add: transformedData_def)

lemma in_transformedData:
  assumes "c \<in> set (transformedData data imgs)"
  obtains i item where "c = transform_item imgs (i, item)"
proof (cases data)
  case None
  with assms show ?thesis by (simp add: transformedData_def)
next
  case (Some ms)
  with assms obtain p where "c = transform_item imgs p"
    by (auto simp: transformedData_def)
  then show ?thesis using that by (cases p) simp
qed

subsection \<open>The fetch fails\<close>

text \<open>
  C1, as the specification states it: after a failed fetch the chat list is empty. It is
  not: the handler only logs. Here a first fetch loads one row; the user changes, the
  second fetch fails at the membership query, and the list still holds that row.
\<close>

theorem fetchChatrooms_failure_leaves_stale_list:
  "chatrooms (snd (fetchChatrooms (Inl (Thrown ''network'')) (Inr [])
      (snd (fetchChatrooms (Inr (Some [row ''r1'' ''General''])) (Inr []) initial_state))))
   \<noteq> []"
  by (simp add: fetchChatrooms_query_throws fetchChatrooms_success transformedData_def)

text \<open>
  C1, amended. When the membership query throws, or it returns and the image fetch throws,
  the call completes normally, exactly one line is written to the console (the message
  and the error thrown), and the chat list is what it was before the call.
\<close>

theorem fetchChatrooms_failure_logs_and_keeps_list:
  "(fst (fetchChatrooms (Inl e) images s) = Inr () \<and>
    console (snd (fetchChatrooms (Inl e) images s)) =
      console s @ [(''Error fetching chatrooms:'', e)] \<and>
    chatrooms (snd (fetchChatrooms (Inl e) images s)) = chatrooms s) \<and>
   (fst (fetchChatrooms (Inr data) (Inl e) s) = Inr () \<and>
    console (snd (fetchChatrooms (Inr data) (Inl e) s)) =
      console s @ [(''Error fetching chatrooms:'', e)] \<and>
    chatrooms (snd (fetchChatrooms (Inr data) (Inl e) s)) = chatrooms s)"
  by (simp add: fetchChatrooms_query_throws fetchChatrooms_images_throw)

subsection \<open>The image batch is empty\<close>

text \<open>
  C2. When the image fetch returns the empty array, \<^verbatim>\<open>index % 0\<close> is \<^verbatim>\<open>NaN\<close>, the read
  gives \<^verbatim>\<open>undefined\<close> and \<^verbatim>\<open>|| null\<close> makes it \<^verbatim>\<open>null\<close>: every row built from a membership
  list has a \<^verbatim>\<open>lastMessage\<close> whose sender's \<^verbatim>\<open>avatar_url\<close> is \<^verbatim>\<open>null\<close>. Nothing is thrown:
  the call completes normally, stores the rows and writes nothing to the console.
\<close>

theorem empty_batch_gives_null_avatars:
  "(\<forall>c \<in> set (transformedData (Some ms) []).
      \<exists>m. lastMessage c = Some m \<and> avatar_url (sender m) = Null) \<and>
   js_rem i (length ([] :: string list)) = NaN \<and>
   fetchChatrooms (Inr (Some ms)) (Inr []) s =
     (Inr (), s\<lparr>chatrooms := transformedData (Some ms) [], loading := False\<rparr>)"
proof (intro conjI ballI)
  fix c assume "c \<in> set (transformedData (Some ms) [])"
  then obtain k item where "c = transform_item [] (k, item)"
    by (rule in_transformedData)
  then show "\<exists>m. lastMessage c = Some m \<and> avatar_url (sender m) = Null"
    by (simp add: lastMessage_transform_item js_avatar_empty_batch)
next
  show "js_rem i (length ([] :: string list)) = NaN"
    by (simp add: js_rem_def)
next
  show "fetchChatrooms (Inr (Some ms)) (Inr []) s =
     (Inr (), s\<lparr>chatrooms := transformedData (Some ms) [], loading := False\<rparr>)"
    by (rule fetchChatrooms_success)
qed

theorem empty_batch_gives_null_avatars_witness:
  "avatars (chatrooms (snd (fetchChatrooms
      (Inr (Some [row ''r1'' ''General'', row ''r2'' ''Random''])) (Inr []) initial_state))) =
     [Some Null, Some Null] \<and>
   fst (fetchChatrooms
      (Inr (Some [row ''r1'' ''General'', row ''r2'' ''Random''])) (Inr []) initial_state) = Inr () \<and>
   console (snd (fetchChatrooms
      (Inr (Some [row ''r1'' ''General'', row ''r2'' ''Random''])) (Inr []) initial_state)) = []"
proof -
  let ?ms = "[row ''r1'' ''General'', row ''r2'' ''Random'']"
  note run = empty_batch_gives_null_avatars [of ?ms 0 initial_state]
  from run have all_null: "\<forall>c \<in> set (transformedData (Some ?ms) []).
      \<exists>m. lastMessage c = Some m \<and> avatar_url (sender m) = Null"
    by (rule conjunct1)
  from run have eq: "fetchChatrooms (Inr (Some ?ms)) (Inr []) initial_state =
     (Inr (), initial_state\<lparr>chatrooms := transformedData (Some ?ms) [], loading := False\<rparr>)"
    by simp
  have "avatars (transformedData (Some ?ms) []) = [Some Null, Some Null]"
    using all_null by (auto simp: transformedData_def enumerate_simps)
  with eq show ?thesis by (simp add: initial_state_def)
qed

subsection \<open>The image batch is not empty\<close>

text \<open>
  C4, as the specification states it: with a non-empty batch the row at position \<open>i\<close> gets
  the avatar \<^verbatim>\<open>images[i mod m]\<close>. It does not when that image is the empty string, which
  \<^verbatim>\<open>|| null\<close> replaces by \<^verbatim>\<open>null\<close>: one membership, and the batch \<^verbatim>\<open>['']\<close>.
\<close>

theorem avatar_is_not_always_the_cyclic_image:
  "avatars (transformedData (Some [row ''r1'' ''General'']) ['''']) ! 0 \<noteq>
     Some (Str ([''''] ! (0 mod length ['''' :: string])))"
  by (simp add: transformedData_def enumerate_simps transform_item_def
      js_rem_def js_index_def js_or_def)

text \<open>
  C4, amended. For a membership list \<open>ms\<close> and a non-empty batch \<open>imgs\<close> of length \<open>m\<close>, there
  is one row per membership, and the avatar of the row at position \<open>i\<close> is the image
  \<open>imgs ! (i mod m)\<close> when that string is not empty, and \<^verbatim>\<open>null\<close> when it is empty.
\<close>

theorem avatar_is_cyclic_image_or_null:
  assumes "imgs \<noteq> []" and "i < length ms"
  shows "length (transformedData (Some ms) imgs) = length ms \<and>
         avatars (transformedData (Some ms) imgs) ! i =
           Some (if imgs ! (i mod length imgs) = '''' then Null
                 else Str (imgs ! (i mod length imgs)))"
proof -
  have "i < length (transformedData (Some ms) imgs)"
    using assms(2) by (simp add: length_transformedData)
  then have "avatars (transformedData (Some ms) imgs) ! i =
      map_option (\<lambda>m. avatar_url (sender m)) (lastMessage (transformedData (Some ms) imgs ! i))"
    by simp
  also have "\<dots> = Some (js_or (js_index imgs (js_rem i (length imgs))) Null)"
    using assms(2) by (simp add: nth_transformedData lastMessage_transform_item)
  also have "\<dots> = Some (if imgs ! (i mod length imgs) = '''' then Null
                 else Str (imgs ! (i mod length imgs)))"
    by (simp add: js_avatar_nonempty_batch [OF assms(1)])
  finally show ?thesis by (simp add: length_transformedData)
qed

text \<open>Two images and five memberships: the images used are those at 0, 1, 0, 1, 0.\<close>

theorem avatar_is_cyclic_image_or_null_witness:
  "avatars (transformedData
      (Some [row ''r0'' ''a'', row ''r1'' ''b'', row ''r2'' ''c'', row ''r3'' ''d'', row ''r4'' ''e''])
      [''img0'', ''img1'']) =
     [Some (Str ''img0''), Some (Str ''img1''), Some (Str ''img0''), Some (Str ''img1''),
      Some (Str ''img0'')]"
proof -
  let ?ms = "[row ''r0'' ''a'', row ''r1'' ''b'', row ''r2'' ''c'', row ''r3'' ''d'', row ''r4'' ''e'']"
  let ?imgs = "[''img0'', ''img1'']"
  let ?as = "avatars (transformedData (Some ?ms) ?imgs)"
  have ne: "?imgs \<noteq> []" by simp
  have len: "length ?as = 5"
    using avatar_is_cyclic_image_or_null [OF ne, of 0 ?ms]
    by (simp add: numeral_2_eq_2 [symmetric])
  have a0: "?as ! 0 = Some (Str ''img0'')"
    using avatar_is_cyclic_image_or_null [OF ne, of 0 ?ms]
    by (simp add: numeral_2_eq_2 [symmetric])
  have a1: "?as ! 1 = Some (Str ''img1'')"
    using avatar_is_cyclic_image_or_null [OF ne, of 1 ?ms]
    by (simp add: numeral_2_eq_2 [symmetric])
  have a2: "?as ! 2 = Some (Str ''img0'')"
    using avatar_is_cyclic_image_or_null [OF ne, of 2 ?ms]
    by (simp add: numeral_2_eq_2 [symmetric])
  have a3: "?as ! 3 = Some (Str ''img1'')"
    using avatar_is_cyclic_image_or_null [OF ne, of 3 ?ms]
    by (simp add: numeral_2_eq_2 [symmetric])
  have a4: "?as ! 4 = Some (Str ''img0'')"
    using avatar_is_cyclic_image_or_null [OF ne, of 4 ?ms]
    by (simp add: numeral_2_eq_2 [symmetric])
  show ?thesis
  proof (rule nth_equalityI)
    show "length ?as = length [Some (Str ''img0''), Some (Str ''img1''), Some (Str ''img0''),
        Some (Str ''img1''), Some (Str ''img0'')]"
      using len by simp
  next
    fix k assume "k < length ?as"
    then have "k < 5" using len by simp
    then consider "k = 0" | "k = 1" | "k = 2" | "k = 3" | "k = 4" by linarith
    then show "?as ! k = [Some (Str ''img0''), Some (Str ''img1''), Some (Str ''img0''),
        Some (Str ''img1''), Some (Str ''img0'')] ! k"
      using a0 a1 a2 a3 a4 by cases simp_all
  qed
qed

subsection \<open>One row per membership\<close>

lemma map_id_cwm_transform:
  "map id_cwm (map (transform_item imgs) ps) = map (\<lambda>p. id_row (chatroom (snd p))) ps"
  by (simp add: transform_item_def split_beta)

lemma map_name_cwm_transform:
  "map name_cwm (map (transform_item imgs) ps) = map (\<lambda>p. name_row (chatroom (snd p))) ps"
  by (simp add: transform_item_def split_beta)

lemma map_snd_field_enumerate:
  "map (\<lambda>p. f (snd p)) (enumerate n xs) = map f xs"
  by (induction xs arbitrary: n) simp_all

text \<open>
  C6, as the specification states it: whenever the membership query returns \<^verbatim>\<open>null\<close> or no
  rows, the chat list is empty. It is not when the image fetch, awaited after the query,
  throws: the list is then never stored. Here a first fetch loads one row; in the second
  the query returns \<^verbatim>\<open>null\<close> and the image fetch throws, and the list still holds that row.
\<close>

theorem null_query_does_not_always_empty_the_list:
  "chatrooms (snd (fetchChatrooms (Inr None) (Inl (Thrown ''image service down''))
      (snd (fetchChatrooms (Inr (Some [row ''r1'' ''General''])) (Inr []) initial_state))))
   \<noteq> []"
  by (simp add: fetchChatrooms_images_throw fetchChatrooms_success transformedData_def)

text \<open>
  C6, amended. When the membership query returns the rows \<open>ms\<close> and the image fetch returns,
  the chat list stored has one row per membership, and the ids and names of its rows are
  those of the memberships in the order returned. When the query returns \<^verbatim>\<open>null\<close>, or no
  rows, and the image fetch returns, the chat list stored is empty and the loading flag is
  false. When the query returns (rows, no rows or \<^verbatim>\<open>null\<close>) and the image fetch throws, no
  list is built: the chat list is what it was before the call, and the loading flag is
  false all the same.
\<close>

theorem one_row_per_membership_in_order:
  "length (chatrooms (snd (fetchChatrooms (Inr (Some ms)) (Inr imgs) s))) = length ms \<and>
   map id_cwm (chatrooms (snd (fetchChatrooms (Inr (Some ms)) (Inr imgs) s))) =
     map (\<lambda>item. id_row (chatroom item)) ms \<and>
   map name_cwm (chatrooms (snd (fetchChatrooms (Inr (Some ms)) (Inr imgs) s))) =
     map (\<lambda>item. name_row (chatroom item)) ms \<and>
   chatrooms (snd (fetchChatrooms (Inr None) (Inr imgs) s)) = [] \<and>
   loading (snd (fetchChatrooms (Inr None) (Inr imgs) s)) = False \<and>
   chatrooms (snd (fetchChatrooms (Inr (Some [])) (Inr imgs) s)) = [] \<and>
   loading (snd (fetchChatrooms (Inr (Some [])) (Inr imgs) s)) = False \<and>
   chatrooms (snd (fetchChatrooms (Inr data) (Inl e) s)) = chatrooms s \<and>
   loading (snd (fetchChatrooms (Inr data) (Inl e) s)) = False"
proof -
  have ids: "map id_cwm (transformedData (Some ms) imgs) = map (\<lambda>item. id_row (chatroom item)) ms"
    unfolding transformedData_def option.case map_id_cwm_transform
    by (rule map_snd_field_enumerate)
  have names: "map name_cwm (transformedData (Some ms) imgs) =
      map (\<lambda>item. name_row (chatroom item)) ms"
    unfolding transformedData_def option.case map_name_cwm_transform
    by (rule map_snd_field_enumerate)
  have none: "transformedData None imgs = []" "transformedData (Some []) imgs = []"
    by (simp_all add: transformedData_def)
  have returned: "length (chatrooms (snd (fetchChatrooms (Inr (Some ms)) (Inr imgs) s))) = length ms"
    "map id_cwm (chatrooms (snd (fetchChatrooms (Inr (Some ms)) (Inr imgs) s))) =
       map (\<lambda>item. id_row (chatroom item)) ms"
    "map name_cwm (chatrooms (snd (fetchChatrooms (Inr (Some ms)) (Inr imgs) s))) =
       map (\<lambda>item. name_row (chatroom item)) ms"
    by (simp_all add: fetchChatrooms_success length_transformedData ids names)
  have empty: "chatrooms (snd (fetchChatrooms (Inr None) (Inr imgs) s)) = []"
    "loading (snd (fetchChatrooms (Inr None) (Inr imgs) s)) = False"
    "chatrooms (snd (fetchChatrooms (Inr (Some [])) (Inr imgs) s)) = []"
    "loading (snd (fetchChatrooms (Inr (Some [])) (Inr imgs) s)) = False"
    by (simp_all add: fetchChatrooms_success none)
  have thrown: "chatrooms (snd (fetchChatrooms (Inr data) (Inl e) s)) = chatrooms s"
    "loading (snd (fetchChatrooms (Inr data) (Inl e) s)) = False"
    by (simp_all add: fetchChatrooms_images_throw)
  from returned empty thrown show ?thesis by (intro conjI)
qed

subsection \<open>The placeholder last message\<close>

text \<open>
  C8. Every row the transformation builds, whatever the memberships and the images, has a
  \<^verbatim>\<open>lastMessage\<close>, and it is the placeholder: content \<^verbatim>\<open>'No messages yet'\<close>, \<^verbatim>\<open>created_at\<close>
  the empty string, sender \<^verbatim>\<open>'Unknown'\<close>. The rows of the screen's chat list keep this
  shape over every run of fetchChatrooms, failed or not, and the initial list has it.
\<close>

theorem lastMessage_is_placeholder:
  "(\<forall>c \<in> set (transformedData data imgs).
      \<exists>a. lastMessage c =
        Some \<lparr>content = ''No messages yet'', created_at = '''',
              sender = \<lparr>username = ''Unknown'', avatar_url = a\<rparr>\<rparr>) \<and>
   ((\<forall>c \<in> set (chatrooms s).
      \<exists>a. lastMessage c =
        Some \<lparr>content = ''No messages yet'', created_at = '''',
              sender = \<lparr>username = ''Unknown'', avatar_url = a\<rparr>\<rparr>) \<longrightarrow>
    (\<forall>c \<in> set (chatrooms (snd (fetchChatrooms query images s))).
      \<exists>a. lastMessage c =
        Some \<lparr>content = ''No messages yet'', created_at = '''',
              sender = \<lparr>username = ''Unknown'', avatar_url = a\<rparr>\<rparr>)) \<and>
   chatrooms initial_state = []"
proof -
  have built: "\<exists>a. lastMessage c =
        Some \<lparr>content = ''No messages yet'', created_at = '''',
              sender = \<lparr>username = ''Unknown'', avatar_url = a\<rparr>\<rparr>"
    if "c \<in> set (transformedData d is)" for c d "is"
  proof -
    from that obtain k item where "c = transform_item is (k, item)"
      by (rule in_transformedData)
    then show ?thesis by (simp add: lastMessage_transform_item)
  qed
  have kept: "chatrooms (snd (fetchChatrooms query images s)) = chatrooms s \<or>
      (\<exists>d is. chatrooms (snd (fetchChatrooms query images s)) = transformedData d is)"
  proof (cases query)
    case (Inl e)
    then show ?thesis by (simp add: fetchChatrooms_query_throws)
  next
    case (Inr d)
    then show ?thesis
    proof (cases images)
      case (Inl e)
      with Inr show ?thesis by (simp add: fetchChatrooms_images_throw)
    next
      case inner: (Inr "is")
      with Inr have "chatrooms (snd (fetchChatrooms query images s)) = transformedData d is"
        by (simp add: fetchChatrooms_success)
      then show ?thesis by blast
    qed
  qed
  show ?thesis
  proof (intro conjI impI)
    show "\<forall>c \<in> set (transformedData data imgs).
      \<exists>a. lastMessage c =
        Some \<lparr>content = ''No messages yet'', created_at = '''',
              sender = \<lparr>username = ''Unknown'', avatar_url = a\<rparr>\<rparr>"
      using built by blast
  next
    assume old: "\<forall>c \<in> set (chatrooms s).
      \<exists>a. lastMessage c =
        Some \<lparr>content = ''No messages yet'', created_at = '''',
              sender = \<lparr>username = ''Unknown'', avatar_url = a\<rparr>\<rparr>"
    from kept show "\<forall>c \<in> set (chatrooms (snd (fetchChatrooms query images s))).
      \<exists>a. lastMessage c =
        Some \<lparr>content = ''No messages yet'', created_at = '''',
              sender = \<lparr>username = ''Unknown'', avatar_url = a\<rparr>\<rparr>"
    proof
      assume "chatrooms (snd (fetchChatrooms query images s)) = chatrooms s"
      with old show ?thesis by simp
    next
      assume "\<exists>d is. chatrooms (snd (fetchChatrooms query images s)) = transformedData d is"
      then obtain d "is" where
        "chatrooms (snd (fetchChatrooms query images s)) = transformedData d is"
        by blast
      with built show ?thesis by simp
    qed
  next
    show "chatrooms initial_state = []" by (simp add: initial_state_def)
  qed
qed

text \<open>
  Two memberships and one image, fetched from the initial state: both rows carry the
  placeholder.
\<close>

theorem lastMessage_is_placeholder_witness:
  "map lastMessage (chatrooms (snd (fetchChatrooms
      (Inr (Some [row ''r1'' ''General'', row ''r2'' ''Random''])) (Inr [''img0'']) initial_state))) =
     [Some \<lparr>content = ''No messages yet'', created_at = '''',
            sender = \<lparr>username = ''Unknown'', avatar_url = Str ''img0''\<rparr>\<rparr>,
      Some \<lparr>content = ''No messages yet'', created_at = '''',
            sender = \<lparr>username = ''Unknown'', avatar_url = Str ''img0''\<rparr>\<rparr>]"
proof -
  let ?q = "Inr (Some [row ''r1'' ''General'', row ''r2'' ''Random''])"
  let ?i = "Inr [''img0'']"
  have start: "\<forall>c \<in> set (chatrooms initial_state).
      \<exists>a. lastMessage c =
        Some \<lparr>content = ''No messages yet'', created_at = '''',
              sender = \<lparr>username = ''Unknown'', avatar_url = a\<rparr>\<rparr>"
    by (simp add: initial_state_def)
  from lastMessage_is_placeholder [of "Some []" "[]" initial_state ?q ?i] start
  have after: "\<forall>c \<in> set (chatrooms (snd (fetchChatrooms ?q ?i initial_state))).
      \<exists>a. lastMessage c =
        Some \<lparr>content = ''No messages yet'', created_at = '''',
              sender = \<lparr>username = ''Unknown'', avatar_url = a\<rparr>\<rparr>"
    by blast
  have avs: "avatars (chatrooms (snd (fetchChatrooms ?q ?i initial_state))) =
      [Some (Str ''img0''), Some (Str ''img0'')]"
    by (simp add: fetchChatrooms_success transformedData_def enumerate_simps transform_item_def
        js_rem_def js_index_def js_or_def)
  have len: "length (chatrooms (snd (fetchChatrooms ?q ?i initial_state))) = 2"
    by (simp add: fetchChatrooms_success length_transformedData)
  then obtain c1 c2 where cs: "chatrooms (snd (fetchChatrooms ?q ?i initial_state)) = [c1, c2]"
    by (auto simp: length_Suc_conv numeral_2_eq_2)
  from after cs obtain a1 a2 where
    "lastMessage c1 = Some \<lparr>content = ''No messages yet'', created_at = '''',
              sender = \<lparr>username = ''Unknown'', avatar_url = a1\<rparr>\<rparr>"
    "lastMessage c2 = Some \<lparr>content = ''No messages yet'', created_at = '''',
              sender = \<lparr>username = ''Unknown'', avatar_url = a2\<rparr>\<rparr>"
    by auto
  with avs cs show ?thesis by simp
qed

subsection \<open>The avatar is null or a non-empty image\<close>

lemma js_or_null_cases:
  "js_or (js_index imgs k) Null = Null \<or>
   (\<exists>u \<in> set imgs. u \<noteq> '''' \<and> js_or (js_index imgs k) Null = Str u)"
proof (cases k)
  case NaN
  then show ?thesis by (simp add: js_index_def js_or_def)
next
  case (Num i)
  show ?thesis
  proof (cases "i < length imgs \<and> imgs ! i \<noteq> ''''")
    case True
    then have "imgs ! i \<in> set imgs" by simp
    moreover from True Num have "js_or (js_index imgs k) Null = Str (imgs ! i)"
      by (simp add: js_index_def js_or_def)
    ultimately show ?thesis using True by blast
  next
    case False
    with Num have "js_or (js_index imgs k) Null = Null"
      by (auto simp: js_index_def js_or_def)
    then show ?thesis by simp
  qed
qed

text \<open>
  C9. In every row the transformation builds, the sender's \<^verbatim>\<open>avatar_url\<close> is neither
  \<^verbatim>\<open>undefined\<close> nor the empty string: it is \<^verbatim>\<open>null\<close>, or a non-empty string that is one of
  the images of the batch.
\<close>

theorem avatar_is_null_or_nonempty_image:
  "\<forall>c \<in> set (transformedData data imgs).
     \<exists>m. lastMessage c = Some m \<and>
       avatar_url (sender m) \<noteq> Undefined \<and>
       avatar_url (sender m) \<noteq> Str '''' \<and>
       (avatar_url (sender m) = Null \<or>
        (\<exists>u \<in> set imgs. u \<noteq> '''' \<and> avatar_url (sender m) = Str u))"
proof
  fix c assume "c \<in> set (transformedData data imgs)"
  then obtain k item where c: "c = transform_item imgs (k, item)"
    by (rule in_transformedData)
  let ?a = "js_or (js_index imgs (js_rem k (length imgs))) Null"
  have "?a = Null \<or> (\<exists>u \<in> set imgs. u \<noteq> '''' \<and> ?a = Str u)"
    by (rule js_or_null_cases)
  then have "?a \<noteq> Undefined \<and> ?a \<noteq> Str '''' \<and>
      (?a = Null \<or> (\<exists>u \<in> set imgs. u \<noteq> '''' \<and> ?a = Str u))"
    by auto
  with c show "\<exists>m. lastMessage c = Some m \<and>
       avatar_url (sender m) \<noteq> Undefined \<and>
       avatar_url (sender m) \<noteq> Str '''' \<and>
       (avatar_url (sender m) = Null \<or>
        (\<exists>u \<in> set imgs. u \<noteq> '''' \<and> avatar_url (sender m) = Str u))"
    by (simp add: lastMessage_transform_item)
qed

text \<open>
  Three memberships and the batch \<^verbatim>\<open>['', 'img1']\<close>: the empty image becomes \<^verbatim>\<open>null\<close>.
\<close>

theorem avatar_is_null_or_nonempty_image_witness:
  "avatars (transformedData
      (Some [row ''r0'' ''a'', row ''r1'' ''b'', row ''r2'' ''c'']) ['''', ''img1'']) =
     [Some Null, Some (Str ''img1''), Some Null] \<and>
   list_all (\<lambda>a. a \<noteq> Some Undefined \<and> a \<noteq> Some (Str ''''))
     (avatars (transformedData
        (Some [row ''r0'' ''a'', row ''r1'' ''b'', row ''r2'' ''c'']) ['''', ''img1'']))"
proof -
  let ?cs = "transformedData
      (Some [row ''r0'' ''a'', row ''r1'' ''b'', row ''r2'' ''c'']) ['''', ''img1'']"
  have ok: "\<forall>c \<in> set ?cs. \<exists>m. lastMessage c = Some m \<and>
       avatar_url (sender m) \<noteq> Undefined \<and> avatar_url (sender m) \<noteq> Str ''''"
    using avatar_is_null_or_nonempty_image
      [of "Some [row ''r0'' ''a'', row ''r1'' ''b'', row ''r2'' ''c'']" "['''', ''img1'']"]
    by blast
  have "list_all (\<lambda>a. a \<noteq> Some Undefined \<and> a \<noteq> Some (Str '''')) (avatars ?cs)"
    unfolding list_all_iff
  proof
    fix a assume "a \<in> set (avatars ?cs)"
    then obtain c where "c \<in> set ?cs"
      and a: "a = map_option (\<lambda>m. avatar_url (sender m)) (lastMessage c)"
      by auto
    with ok obtain m where "lastMessage c = Some m"
      "avatar_url (sender m) \<noteq> Undefined" "avatar_url (sender m) \<noteq> Str ''''"
      by blast
    with a show "a \<noteq> Some Undefined \<and> a \<noteq> Some (Str '''')" by simp
  qed
  moreover have "avatars ?cs = [Some Null, Some (Str ''img1''), Some Null]"
    by (simp add: transformedData_def enumerate_simps transform_item_def
        js_rem_def js_index_def js_or_def)
  ultimately show ?thesis by (simp only: simp_thms)
qed

subsection \<open>The timestamp\<close>

lemma formatTimestamp_null: "formatTimestamp new_Date format None = Inr ''''"
  by (simp add: formatTimestamp_def)

lemma formatTimestamp_empty: "formatTimestamp new_Date format (Some '''') = Inr ''''"
  by (simp add: formatTimestamp_def)

lemma formatTimestamp_returns: "\<exists>out. formatTimestamp new_Date format t = Inr out"
  by (simp add: formatTimestamp_def try_catch_def split: option.split sum.split)

text \<open>
  What the function itself contributes for a non-empty input: the text is whatever
  \<open>format\<close> makes of the date with the pattern \<^verbatim>\<open>'MMM d, h:mm a'\<close>, and the empty string
  when \<open>format\<close> throws.
\<close>

lemma formatTimestamp_nonempty:
  assumes "ts \<noteq> ''''"
  shows "formatTimestamp new_Date format (Some ts) =
    (case format (new_Date ts) ''MMM d, h:mm a'' of Inl e \<Rightarrow> Inr '''' | Inr out \<Rightarrow> Inr out)"
  using assms by (simp add: formatTimestamp_def try_catch_def)

text \<open>
  C5. \<^verbatim>\<open>formatTimestamp(null)\<close> and \<^verbatim>\<open>formatTimestamp('')\<close> are the empty string, and
  formatTimestamp returns a string, without throwing, on every input. For a string \<open>ts\<close>
  that does not parse (\<^verbatim>\<open>new Date(ts)\<close> is an Invalid Date) the result is the empty
  string too; this rests on \<open>format\<close> throwing on an Invalid Date, as date-fns does
  (a RangeError), which is the hypothesis: the \<^verbatim>\<open>catch\<close> turns that into \<^verbatim>\<open>''\<close>.
\<close>

theorem formatTimestamp_bad_input_is_empty:
  assumes "format InvalidDate ''MMM d, h:mm a'' = Inl e"
  shows "formatTimestamp new_Date format None = Inr '''' \<and>
         formatTimestamp new_Date format (Some '''') = Inr '''' \<and>
         (new_Date ts = InvalidDate \<longrightarrow> formatTimestamp new_Date format (Some ts) = Inr '''') \<and>
         (\<exists>out. formatTimestamp new_Date format t = Inr out)"
proof (intro conjI impI)
  show "formatTimestamp new_Date format None = Inr ''''"
    by (rule formatTimestamp_null)
  show "formatTimestamp new_Date format (Some '''') = Inr ''''"
    by (rule formatTimestamp_empty)
  show "\<exists>out. formatTimestamp new_Date format t = Inr out"
    by (rule formatTimestamp_returns)
next
  assume invalid: "new_Date ts = InvalidDate"
  show "formatTimestamp new_Date format (Some ts) = Inr ''''"
  proof (cases "ts = ''''")
    case True
    then show ?thesis by (simp add: formatTimestamp_empty)
  next
    case False
    with invalid assms show ?thesis by (simp add: formatTimestamp_nonempty)
  qed
qed

text \<open>
  A date constructor that parses nothing but one timestamp, and a \<open>format\<close> that throws on
  an Invalid Date: \<^verbatim>\<open>'not-a-date'\<close> gives the empty string.
\<close>

theorem formatTimestamp_bad_input_is_empty_witness:
  "formatTimestamp
     (\<lambda>ts. if ts = ''2024-01-05T15:45:00Z'' then TimeValue 1704469500000 else InvalidDate)
     (\<lambda>d p. case d of InvalidDate \<Rightarrow> Inl (Thrown ''Invalid time value'') | TimeValue n \<Rightarrow> Inr p)
     (Some ''not-a-date'') = Inr ''''"
  using formatTimestamp_bad_input_is_empty
    [of "\<lambda>d p. case d of InvalidDate \<Rightarrow> Inl (Thrown ''Invalid time value'') | TimeValue n \<Rightarrow> Inr p"
        "Thrown ''Invalid time value''"
        "\<lambda>ts. if ts = ''2024-01-05T15:45:00Z'' then TimeValue 1704469500000 else InvalidDate"
        "''not-a-date''"]
  by simp

text \<open>
  C10. For every row the transformation builds, the text of the timestamp element,
  \<^verbatim>\<open>formatTimestamp(item.lastMessage?.created_at ?? null)\<close>, is the empty string, whatever
  \<^verbatim>\<open>new Date\<close> and \<open>format\<close> do: \<^verbatim>\<open>created_at\<close> is \<^verbatim>\<open>''\<close> and the function returns at its
  first line. So it is for every row of the chat list stored by a fetch that succeeds.
\<close>

theorem rendered_timestamp_is_empty:
  "(\<forall>c \<in> set (transformedData data imgs).
      created_at (the (lastMessage c)) = '''' \<and>
      renderItem_timestamp new_Date format c = Inr '''') \<and>
   (\<forall>c \<in> set (chatrooms (snd (fetchChatrooms (Inr data) (Inr imgs) s))).
      renderItem_timestamp new_Date format c = Inr '''')"
proof -
  have row: "created_at (the (lastMessage c)) = '''' \<and>
      renderItem_timestamp new_Date format c = Inr ''''"
    if "c \<in> set (transformedData data imgs)" for c
  proof -
    from that obtain k item where "c = transform_item imgs (k, item)"
      by (rule in_transformedData)
    then show ?thesis
      by (simp add: renderItem_timestamp_def lastMessage_transform_item formatTimestamp_empty)
  qed
  then show ?thesis by (simp add: fetchChatrooms_success)
qed

theorem rendered_timestamp_is_empty_witness:
  "map (renderItem_timestamp
      (\<lambda>ts. TimeValue 0) (\<lambda>d p. Inr ''Jan 1, 12:00 AM''))
     (chatrooms (snd (fetchChatrooms
        (Inr (Some [row ''r1'' ''General'', row ''r2'' ''Random''])) (Inr [''img0'']) initial_state))) =
     [Inr '''', Inr '''']"
proof -
  let ?cs = "chatrooms (snd (fetchChatrooms
        (Inr (Some [row ''r1'' ''General'', row ''r2'' ''Random''])) (Inr [''img0'']) initial_state))"
  let ?r = "renderItem_timestamp (\<lambda>ts. TimeValue 0) (\<lambda>d p. Inr ''Jan 1, 12:00 AM'')"
  have all: "\<forall>c \<in> set ?cs. ?r c = Inr ''''"
    using rendered_timestamp_is_empty
      [of "Some [row ''r1'' ''General'', row ''r2'' ''Random'']" "[''img0'']"
          "\<lambda>ts. TimeValue 0" "\<lambda>d p. Inr ''Jan 1, 12:00 AM''" initial_state]
    by (rule conjunct2)
  have "length ?cs = 2"
    by (simp add: fetchChatrooms_success length_transformedData)
  then obtain c1 c2 where cs: "?cs = [c1, c2]"
    by (auto simp: length_Suc_conv numeral_2_eq_2)
  with all have "?r c1 = Inr ''''" "?r c2 = Inr ''''" by simp_all
  with cs show ?thesis by simp
qed

end
